theory Spec2Isabelle
  imports Main "HOL-Library.Sublist"
begin

section \<open>JavaScript values\<close>

text \<open>
  The functions of \<^verbatim>\<open>src/lib/api\<close> receive values of type \<^verbatim>\<open>unknown\<close>: a response
  body, a value thrown by the transport, a query parameter. TypeScript's types are erased
  at run time, so these are modelled as JavaScript values. Strings are byte strings
  holding the UTF-8 encoding of the text; an object is the list of its own enumerable
  string-keyed properties in the order \<^verbatim>\<open>Object.entries\<close> lists them. The keys of an
  object are distinct; a lookup in a list that repeats a key takes the first entry.

  The numbers of the model are the safe integers of JavaScript
  (\<^verbatim>\<open>Number.isSafeInteger\<close>: magnitude at most \<open>2\<^sup>5\<^sup>3 - 1\<close>), which a number holds
  exactly and writes in plain decimal digits. Fractions, larger numbers, NaN and the
  infinities are not values of the type.
\<close>

typedef safe_int = "{n :: int. - (2 ^ 53 - 1) \<le> n \<and> n \<le> 2 ^ 53 - 1}"
  by (rule exI [of _ 0]) simp

text \<open>The integer a number stands for, and the number of a safe integer.\<close>

definition int_of_num :: "safe_int \<Rightarrow> int" where
  "int_of_num n = Rep_safe_int n"

definition num_of_int :: "int \<Rightarrow> safe_int" where
  "num_of_int i = Abs_safe_int i"

datatype jsval =
    JUndefined
  | JNull
  | JBool bool
  | JNum safe_int
  | JStr string
  | JArr "jsval list"
  | JObj "(string \<times> jsval) list"

text \<open>The \<^verbatim>\<open>typeof\<close> operator: \<^verbatim>\<open>null\<close> and arrays are objects.\<close>

fun typeof :: "jsval \<Rightarrow> string" where
  "typeof JUndefined = ''undefined''"
| "typeof JNull = ''object''"
| "typeof (JBool b) = ''boolean''"
| "typeof (JNum n) = ''number''"
| "typeof (JStr s) = ''string''"
| "typeof (JArr xs) = ''object''"
| "typeof (JObj kvs) = ''object''"

text \<open>Truthiness, as \<^verbatim>\<open>!!v\<close> and the conditions of \<^verbatim>\<open>if\<close> and \<^verbatim>\<open>?:\<close> read it.\<close>

fun truthy :: "jsval \<Rightarrow> bool" where
  "truthy JUndefined = False"
| "truthy JNull = False"
| "truthy (JBool b) = b"
| "truthy (JNum n) = (int_of_num n \<noteq> 0)"
| "truthy (JStr s) = (s \<noteq> [])"
| "truthy (JArr xs) = True"
| "truthy (JObj kvs) = True"

text \<open>
  Reading a property by name. The source reads the names \<^verbatim>\<open>error\<close>, \<^verbatim>\<open>code\<close> and
  \<^verbatim>\<open>message\<close> only, and only from values it has checked to be objects; on an array
  (which has index and \<^verbatim>\<open>length\<close> properties only) these names are undefined.
\<close>

fun get_prop :: "jsval \<Rightarrow> string \<Rightarrow> jsval" where
  "get_prop (JObj kvs) k = (case map_of kvs k of Some v \<Rightarrow> v | None \<Rightarrow> JUndefined)"
| "get_prop v k = JUndefined"

text \<open>The nullish coalescing operator \<^verbatim>\<open>a ?? b\<close>.\<close>

fun nullish :: "jsval \<Rightarrow> bool" where
  "nullish JUndefined = True"
| "nullish JNull = True"
| "nullish v = False"

definition coalesce :: "jsval \<Rightarrow> jsval \<Rightarrow> jsval" where
  "coalesce a b = (if nullish a then b else a)"

text \<open>An optional string argument (\<^verbatim>\<open>fallbackMessage?: string\<close>) as a value.\<close>

fun opt_str :: "string option \<Rightarrow> jsval" where
  "opt_str None = JUndefined"
| "opt_str (Some s) = JStr s"


section \<open>The error normalizer (\<^verbatim>\<open>src/lib/api/errors.ts\<close>)\<close>

text \<open>
  \<^verbatim>\<open>ApiErrorCode\<close> is a union of nine string literal types. At run time a code is a
  string, and \<^verbatim>\<open>as ApiErrorCode\<close> checks nothing.
\<close>

type_synonym ApiErrorCode = string

abbreviation UNAUTHORIZED :: ApiErrorCode where "UNAUTHORIZED \<equiv> ''UNAUTHORIZED''"
abbreviation FORBIDDEN :: ApiErrorCode where "FORBIDDEN \<equiv> ''FORBIDDEN''"
abbreviation NOT_FOUND :: ApiErrorCode where "NOT_FOUND \<equiv> ''NOT_FOUND''"
abbreviation PURCHASE_REQUIRED :: ApiErrorCode where "PURCHASE_REQUIRED \<equiv> ''PURCHASE_REQUIRED''"
abbreviation EXPIRED :: ApiErrorCode where "EXPIRED \<equiv> ''EXPIRED''"
abbreviation VALIDATION_ERROR :: ApiErrorCode where "VALIDATION_ERROR \<equiv> ''VALIDATION_ERROR''"
abbreviation SERVER_ERROR :: ApiErrorCode where "SERVER_ERROR \<equiv> ''SERVER_ERROR''"
abbreviation NETWORK_ERROR :: ApiErrorCode where "NETWORK_ERROR \<equiv> ''NETWORK_ERROR''"
abbreviation UNKNOWN_ERROR :: ApiErrorCode where "UNKNOWN_ERROR \<equiv> ''UNKNOWN_ERROR''"

text \<open>The members of the declared union, in the order of the declaration.\<close>

definition ApiErrorCode_members :: "ApiErrorCode list" where
  "ApiErrorCode_members =
     [UNAUTHORIZED, FORBIDDEN, NOT_FOUND, PURCHASE_REQUIRED, EXPIRED,
      VALIDATION_ERROR, SERVER_ERROR, NETWORK_ERROR, UNKNOWN_ERROR]"

text \<open>
  An \<^verbatim>\<open>ApiError\<close> object. The fields \<^verbatim>\<open>code\<close> and \<^verbatim>\<open>message\<close> hold whatever value
  the normalizer stores there; \<^verbatim>\<open>status\<close> is \<open>None\<close> when absent or undefined.
\<close>

record ApiError =
  code :: jsval
  message :: jsval
  status :: "int option"
  details :: jsval

definition isServerErrorShape :: "jsval \<Rightarrow> bool" where
  "isServerErrorShape errData =
     (if typeof errData \<noteq> ''object'' \<or> errData = JNull then False
      else
        let err = get_prop errData ''error''
        in truthy err \<and> typeof err = ''object'' \<and> typeof (get_prop err ''code'') = ''string'')"

definition mapHttpStatusToCode :: "int \<Rightarrow> ApiErrorCode" where
  "mapHttpStatusToCode st =
     (if st = 400 then VALIDATION_ERROR
      else if st = 401 then UNAUTHORIZED
      else if st = 403 then FORBIDDEN
      else if st = 404 then NOT_FOUND
      else if st = 410 then EXPIRED
      else if st \<ge> 500 then SERVER_ERROR
      else UNKNOWN_ERROR)"

text \<open>
  The operand \<^verbatim>\<open>status ? mapHttpStatusToCode(status) : "UNKNOWN_ERROR"\<close>: an
  undefined status and the status 0 are falsy.
\<close>

fun status_code_or_unknown :: "int option \<Rightarrow> ApiErrorCode" where
  "status_code_or_unknown None = UNKNOWN_ERROR"
| "status_code_or_unknown (Some n) = (if n \<noteq> 0 then mapHttpStatusToCode n else UNKNOWN_ERROR)"

text \<open>The default message of the last branch (a Japanese sentence), as its UTF-8 bytes.\<close>

definition MSG_NETWORK_DEFAULT :: string where
  "MSG_NETWORK_DEFAULT = map char_of
     [233, 128, 154, 228, 191, 161, 227, 129, 171, 229, 164, 177, 230, 149, 151,
      227, 129, 151, 227, 129, 190, 227, 129, 151, 227, 129, 159 :: nat]"

definition toApiError :: "int option \<Rightarrow> jsval \<Rightarrow> string option \<Rightarrow> ApiError" where
  "toApiError st body fallbackMessage =
     (if isServerErrorShape body then
        let err = get_prop body ''error'';
            c = get_prop err ''code''
        in \<lparr> code = coalesce c (JStr (status_code_or_unknown st)),
             message = coalesce (get_prop err ''message'')
                 (coalesce (opt_str fallbackMessage) (JStr ''UNKOWN_ERROR'')),
             status = st,
             details = body \<rparr>
      else
        (case st of
           Some n \<Rightarrow>
             \<lparr> code = JStr (mapHttpStatusToCode n),
               message = coalesce (opt_str fallbackMessage) (JStr ''ERROR''),
               status = Some n,
               details = body \<rparr>
         | None \<Rightarrow>
             \<lparr> code = JStr NETWORK_ERROR,
               message = coalesce (opt_str fallbackMessage) (JStr MSG_NETWORK_DEFAULT),
               status = None,
               details = body \<rparr>))"


section \<open>The request executor (\<^verbatim>\<open>src/lib/api/client.ts\<close>)\<close>

subsection \<open>Module start-up\<close>



text \<open>A value of type \<^verbatim>\<open>string | undefined\<close> inside a template literal.\<close>

fun template_str :: "string option \<Rightarrow> string" where
  "template_str None = ''undefined''"
| "template_str (Some s) = s"

subsection \<open>Configuration, request and response\<close>

record ApiClientOptions =
  opts_credentials :: "string option"
  opts_headers :: "(string \<rightharpoonup> string) option"

text \<open>
  \<^verbatim>\<open>RequestInit\<close>: the four fields the source reads or sets. Any further field
  (\<^verbatim>\<open>signal\<close>, \<^verbatim>\<open>mode\<close>, ...) travels in the record's extension, which the spread
  \<^verbatim>\<open>{...init, headers, credentials}\<close> copies unchanged.
\<close>

record RequestInit =
  init_method :: "string option"
  init_body :: "string option"
  init_headers :: "(string \<rightharpoonup> string) option"
  init_credentials :: "string option"

text \<open>
  A \<^verbatim>\<open>Response\<close> as the executor observes it: the status, the content-type header
  (\<open>None\<close> when \<^verbatim>\<open>headers.get\<close> returns null), and what \<^verbatim>\<open>json()\<close> and \<^verbatim>\<open>text()\<close>
  would settle to (\<open>None\<close> when the promise rejects).
\<close>

record Response =
  res_status :: int
  res_content_type :: "string option"
  res_json :: "jsval option"
  res_text :: "string option"

text \<open>\<^verbatim>\<open>Response.ok\<close>, as the Fetch standard defines it: the status is in 200..299.\<close>

definition res_ok :: "Response \<Rightarrow> bool" where
  "res_ok res = (200 \<le> res_status res \<and> res_status res \<le> 299)"

text \<open>
  The transport \<^verbatim>\<open>fetch\<close>: called with a URL and an init object in a state of the
  world \<open>'w\<close>, it either rejects with some value or resolves with a response, and
  leaves a new state of the world.
\<close>

datatype fetch_outcome = Rejects jsval | Resolves Response

type_synonym 'w transport = "string \<Rightarrow> RequestInit \<Rightarrow> 'w \<Rightarrow> fetch_outcome \<times> 'w"

text \<open>\<^verbatim>\<open>String.prototype.includes\<close> on byte strings.\<close>

fun str_includes :: "string \<Rightarrow> string \<Rightarrow> bool" where
  "str_includes [] sub = (sub = [])"
| "str_includes (c # cs) sub = (prefix sub (c # cs) \<or> str_includes cs sub)"

text \<open>The two fallback messages of \<^verbatim>\<open>request\<close> (Japanese sentences), as UTF-8 bytes.\<close>

definition MSG_NETWORK :: string where
  "MSG_NETWORK = map char_of
     [227, 131, 141, 227, 131, 131, 227, 131, 136, 227, 131, 175, 227, 131, 188,
      227, 130, 175, 227, 130, 168, 227, 131, 169, 227, 131, 188, 227, 129, 140,
      231, 153, 186, 231, 148, 159, 227, 129, 151, 227, 129, 190, 227, 129, 151,
      227, 129, 159, 227, 128, 130 :: nat]"

definition MSG_SERVER :: string where
  "MSG_SERVER = map char_of
     [227, 130, 181, 227, 131, 188, 227, 131, 144, 227, 131, 188, 227, 130, 168,
      227, 131, 169, 227, 131, 188, 227, 129, 140, 231, 153, 186, 231, 148, 159,
      227, 129, 151, 227, 129, 190, 227, 129, 151, 227, 129, 159, 227, 128, 130 :: nat]"

subsection \<open>\<^verbatim>\<open>ApiClient.request\<close>\<close>

text \<open>The URL and the init object handed to \<^verbatim>\<open>fetch\<close> (lines 40 to 67).\<close>

definition request_url :: "string option \<Rightarrow> string \<Rightarrow> string" where
  "request_url base path = template_str base @ path"

text \<open>
  A header record is a map from header names to values: the object spread
  \<^verbatim>\<open>{ "Content-Type": ..., ...a, ...b }\<close> lets a later source overwrite an earlier one
  name by name, which is \<open>++\<close> on maps.
\<close>

definition merged_headers :: "ApiClientOptions \<Rightarrow> RequestInit \<Rightarrow> (string \<rightharpoonup> string)" where
  "merged_headers opts init =
     [''Content-Type'' \<mapsto> ''application/json'']
       ++ (case opts_headers opts of Some h \<Rightarrow> h | None \<Rightarrow> Map.empty)
       ++ (case init_headers init of Some h \<Rightarrow> h | None \<Rightarrow> Map.empty)"

definition resolved_credentials :: "ApiClientOptions \<Rightarrow> RequestInit \<Rightarrow> string" where
  "resolved_credentials opts init =
     (case init_credentials init of
        Some c \<Rightarrow> c
      | None \<Rightarrow> (case opts_credentials opts of Some c \<Rightarrow> c | None \<Rightarrow> ''include''))"

definition fetch_init :: "ApiClientOptions \<Rightarrow> RequestInit \<Rightarrow> RequestInit" where
  "fetch_init opts init =
     init\<lparr> init_headers := Some (merged_headers opts init),
           init_credentials := Some (resolved_credentials opts init) \<rparr>"

text \<open>Decoding the body of a response (lines 75 to 95).\<close>

definition decode_body :: "Response \<Rightarrow> jsval" where
  "decode_body res =
     (let contentType = (case res_content_type res of Some c \<Rightarrow> c | None \<Rightarrow> [])
      in if str_includes contentType ''application/json''
         then (case res_json res of Some v \<Rightarrow> v | None \<Rightarrow> JNull)
         else (case res_text res of Some t \<Rightarrow> JStr t | None \<Rightarrow> JNull))"

text \<open>
  The method itself. The result is \<open>Inl\<close> of the thrown \<^verbatim>\<open>ApiError\<close> when the promise
  rejects and \<open>Inr\<close> of the payload when it resolves, with the state of the world
  after the call.
\<close>

definition request ::
  "'w transport \<Rightarrow> ApiClientOptions \<Rightarrow> string option \<Rightarrow> string \<Rightarrow> RequestInit \<Rightarrow> 'w
     \<Rightarrow> (ApiError + jsval) \<times> 'w" where
  "request fetch opts base path init w =
     (let url = request_url base path
      in case fetch url (fetch_init opts init) w of
           (Rejects e, w') \<Rightarrow>
             (Inl (toApiError None e (Some MSG_NETWORK)), w')
         | (Resolves res, w') \<Rightarrow>
             (let body = decode_body res
              in if \<not> res_ok res
                 then (Inl (toApiError (Some (res_status res)) body (Some MSG_SERVER)), w')
                 else (Inr body, w')))"

subsection \<open>Conversion of values to text\<close>

text \<open>
  Decimal digits of a natural number, and \<^verbatim>\<open>Number.prototype.toString\<close> on a safe
  integer: a minus sign for a negative number, then the digits of the magnitude.
\<close>

fun nat_digits :: "nat \<Rightarrow> string" where
  "nat_digits n =
     (if n < 10 then [char_of (48 + n)]
      else nat_digits (n div 10) @ [char_of (48 + n mod 10)])"

declare nat_digits.simps [simp del]

definition num_to_string :: "safe_int \<Rightarrow> string" where
  "num_to_string n =
     (if int_of_num n < 0 then CHR ''-'' # nat_digits (nat (- int_of_num n))
      else nat_digits (nat (int_of_num n)))"

fun join :: "string \<Rightarrow> string list \<Rightarrow> string" where
  "join sep [] = []"
| "join sep [x] = x"
| "join sep (x # y # ys) = x @ sep @ join sep (y # ys)"

text \<open>
  The conversion \<^verbatim>\<open>String(v)\<close>: an array joins its elements with commas, null and
  undefined elements as the empty string; a plain object is \<^verbatim>\<open>[object Object]\<close>.
\<close>

fun js_String :: "jsval \<Rightarrow> string" where
  "js_String JUndefined = ''undefined''"
| "js_String JNull = ''null''"
| "js_String (JBool b) = (if b then ''true'' else ''false'')"
| "js_String (JNum n) = num_to_string n"
| "js_String (JStr s) = s"
| "js_String (JArr xs) = join '','' (map (\<lambda>x. if nullish x then [] else js_String x) xs)"
| "js_String (JObj kvs) = ''[object Object]''"

text \<open>
  \<^verbatim>\<open>JSON.stringify\<close>: a string is quoted with the JSON escapes, an undefined array element
  is written \<^verbatim>\<open>null\<close>, a property whose value is undefined is left out, and undefined
  itself has no JSON text.
\<close>

definition hex_lower :: "nat \<Rightarrow> char" where
  "hex_lower d = ''0123456789abcdef'' ! (d mod 16)"

definition json_escape_byte :: "char \<Rightarrow> string" where
  "json_escape_byte c =
     (let n = (of_char c :: nat) in
      if n = 34 then [CHR 0x5C, CHR 0x22]
      else if n = 92 then [CHR 0x5C, CHR 0x5C]
      else if n = 8 then [CHR 0x5C, CHR ''b'']
      else if n = 9 then [CHR 0x5C, CHR ''t'']
      else if n = 10 then [CHR 0x5C, CHR ''n'']
      else if n = 12 then [CHR 0x5C, CHR ''f'']
      else if n = 13 then [CHR 0x5C, CHR ''r'']
      else if n < 32 then [CHR 0x5C, CHR ''u'', CHR ''0'', CHR ''0'', hex_lower (n div 16), hex_lower n]
      else [c])"

definition json_quote :: "string \<Rightarrow> string" where
  "json_quote s = CHR 0x22 # concat (map json_escape_byte s) @ [CHR 0x22]"

fun json_text :: "jsval \<Rightarrow> string"
  and json_elements :: "jsval list \<Rightarrow> string list"
  and json_members :: "(string \<times> jsval) list \<Rightarrow> string list" where
  "json_text JUndefined = ''null''"
| "json_text JNull = ''null''"
| "json_text (JBool b) = (if b then ''true'' else ''false'')"
| "json_text (JNum n) = num_to_string n"
| "json_text (JStr s) = json_quote s"
| "json_text (JArr xs) = ''['' @ join '','' (json_elements xs) @ '']''"
| "json_text (JObj kvs) = ''{'' @ join '','' (json_members kvs) @ ''}''"
| "json_elements [] = []"
| "json_elements (x # xs) = json_text x # json_elements xs"
| "json_members [] = []"
| "json_members ((k, v) # kvs) =
     (if v = JUndefined then json_members kvs
      else (json_quote k @ '':'' @ json_text v) # json_members kvs)"

definition JSON_stringify :: "jsval \<Rightarrow> string option" where
  "JSON_stringify v = (if v = JUndefined then None else Some (json_text v))"

subsection \<open>\<^verbatim>\<open>get\<close>, \<^verbatim>\<open>post\<close>, \<^verbatim>\<open>delete\<close> and the shared instance\<close>

definition get ::
  "'w transport \<Rightarrow> ApiClientOptions \<Rightarrow> string option \<Rightarrow> string \<Rightarrow> 'w \<Rightarrow> (ApiError + jsval) \<times> 'w" where
  "get fetch opts base path =
     request fetch opts base path
       \<lparr> init_method = Some ''GET'', init_body = None,
         init_headers = None, init_credentials = None \<rparr>"

text \<open>An omitted \<^verbatim>\<open>data\<close> argument is \<open>JUndefined\<close>.\<close>

definition post ::
  "'w transport \<Rightarrow> ApiClientOptions \<Rightarrow> string option \<Rightarrow> string \<Rightarrow> jsval \<Rightarrow> 'w
     \<Rightarrow> (ApiError + jsval) \<times> 'w" where
  "post fetch opts base path data =
     request fetch opts base path
       \<lparr> init_method = Some ''POST'',
         init_body = (if data = JUndefined then None else JSON_stringify data),
         init_headers = None, init_credentials = None \<rparr>"

definition delete ::
  "'w transport \<Rightarrow> ApiClientOptions \<Rightarrow> string option \<Rightarrow> string \<Rightarrow> 'w \<Rightarrow> (ApiError + jsval) \<times> 'w" where
  "delete fetch opts base path =
     request fetch opts base path
       \<lparr> init_method = Some ''DELETE'', init_body = None,
         init_headers = None, init_credentials = None \<rparr>"

definition apiClient :: ApiClientOptions where
  "apiClient = \<lparr> opts_credentials = Some ''include'', opts_headers = None \<rparr>"


section \<open>The query-string builder (\<^verbatim>\<open>buildQuery\<close> of \<^verbatim>\<open>src/lib/api/endpoints.ts\<close>)\<close>

subsection \<open>\<^verbatim>\<open>URLSearchParams\<close>\<close>

text \<open>
  A \<^verbatim>\<open>URLSearchParams\<close> object is a list of name-value pairs. \<^verbatim>\<open>append\<close> adds a pair
  at the end; \<^verbatim>\<open>set\<close> overwrites the first pair of that name and removes the others, or
  appends when there is none.
\<close>

type_synonym URLSearchParams = "(string \<times> string) list"

definition sp_append :: "URLSearchParams \<Rightarrow> string \<Rightarrow> string \<Rightarrow> URLSearchParams" where
  "sp_append sp k v = sp @ [(k, v)]"

fun sp_set :: "URLSearchParams \<Rightarrow> string \<Rightarrow> string \<Rightarrow> URLSearchParams" where
  "sp_set [] k v = [(k, v)]"
| "sp_set ((n, x) # ps) k v =
     (if n = k then (k, v) # filter (\<lambda>p. fst p \<noteq> k) ps else (n, x) # sp_set ps k v)"

text \<open>
  \<^verbatim>\<open>toString\<close> is the application/x-www-form-urlencoded serializer of the URL standard:
  names and values are percent-encoded byte by byte, leaving ASCII letters, digits and
  \<^verbatim>\<open>* - . _\<close> as they are and writing a space as \<^verbatim>\<open>+\<close>.
\<close>

definition hex_upper :: "nat \<Rightarrow> char" where
  "hex_upper d = ''0123456789ABCDEF'' ! (d mod 16)"

definition urlencoded_safe :: "char \<Rightarrow> bool" where
  "urlencoded_safe c =
     (let n = (of_char c :: nat) in
        (48 \<le> n \<and> n \<le> 57) \<or> (65 \<le> n \<and> n \<le> 90) \<or> (97 \<le> n \<and> n \<le> 122)
        \<or> n = 42 \<or> n = 45 \<or> n = 46 \<or> n = 95)"

definition urlencode_byte :: "char \<Rightarrow> string" where
  "urlencode_byte c =
     (if urlencoded_safe c then [c]
      else if c = CHR '' '' then ''+''
      else [CHR ''%'', hex_upper (of_char c div 16), hex_upper (of_char c)])"

definition urlencode :: "string \<Rightarrow> string" where
  "urlencode s = concat (map urlencode_byte s)"

definition sp_toString :: "URLSearchParams \<Rightarrow> string" where
  "sp_toString sp = join ''&'' (map (\<lambda>(k, v). urlencode k @ ''='' @ urlencode v) sp)"

subsection \<open>\<^verbatim>\<open>buildQuery\<close>\<close>

text \<open>The inner loop \<^verbatim>\<open>for (const item of v) sp.append(k, String(item))\<close>.\<close>

fun append_items :: "URLSearchParams \<Rightarrow> string \<Rightarrow> jsval list \<Rightarrow> URLSearchParams" where
  "append_items sp k [] = sp"
| "append_items sp k (item # items) = append_items (sp_append sp k (js_String item)) k items"

text \<open>The outer loop over \<^verbatim>\<open>Object.entries(params)\<close>.\<close>

fun buildQuery_loop :: "(string \<times> jsval) list \<Rightarrow> URLSearchParams \<Rightarrow> URLSearchParams" where
  "buildQuery_loop [] sp = sp"
| "buildQuery_loop ((k, v) # entries) sp =
     (if v = JUndefined \<or> v = JNull then buildQuery_loop entries sp
      else (case v of
              JArr items \<Rightarrow> buildQuery_loop entries (append_items sp k items)
            | _ \<Rightarrow> buildQuery_loop entries (sp_set sp k (js_String v))))"

text \<open>
  \<^verbatim>\<open>buildQuery\<close>, on the entries of its argument. The keys of an object are distinct.
\<close>

definition buildQuery :: "(string \<times> jsval) list \<Rightarrow> string" where
  "buildQuery params =
     (let sp = buildQuery_loop params [];
          q = sp_toString sp
      in if q \<noteq> [] then ''?'' @ q else [])"


section \<open>Mock transports\<close>


definition transport_responding :: "Response \<Rightarrow> (string \<times> RequestInit) list transport" where
  "transport_responding res url init calls = (Resolves res, calls @ [(url, init)])"


section \<open>Notions used in the statements\<close>

text \<open>
  A response whose body cannot be decoded: its content type names JSON and \<^verbatim>\<open>json()\<close>
  rejects, or it names anything else and \<^verbatim>\<open>text()\<close> rejects.
\<close>

definition decoding_fails :: "Response \<Rightarrow> bool" where
  "decoding_fails res =
     (if str_includes (case res_content_type res of Some c \<Rightarrow> c | None \<Rightarrow> [])
           ''application/json''
      then res_json res = None
      else res_text res = None)"


text \<open>
  What follows states what a query string means without using the builder's own
  functions. First the reader of the URL standard for application/x-www-form-urlencoded
  text: the part behind \<^verbatim>\<open>?\<close> is cut at every \<^verbatim>\<open>&\<close>, empty pieces are dropped, each
  piece is cut at its first \<^verbatim>\<open>=\<close> into a name and a value, and both are decoded: \<^verbatim>\<open>+\<close>
  is a space and \<^verbatim>\<open>%\<close> with two hexadecimal digits is the byte they write.
\<close>

definition hex_value :: "char \<Rightarrow> nat option" where
  "hex_value c =
     (let n = (of_char c :: nat) in
      if 48 \<le> n \<and> n \<le> 57 then Some (n - 48)
      else if 65 \<le> n \<and> n \<le> 70 then Some (n - 55)
      else if 97 \<le> n \<and> n \<le> 102 then Some (n - 87)
      else None)"

fun form_urldecode :: "string \<Rightarrow> string" where
  "form_urldecode (c # h # l # rest) =
     (if c = CHR ''%'' then
        (case (hex_value h, hex_value l) of
           (Some a, Some b) \<Rightarrow> char_of (16 * a + b) # form_urldecode rest
         | _ \<Rightarrow> c # form_urldecode (h # l # rest))
      else (if c = CHR ''+'' then CHR '' '' else c) # form_urldecode (h # l # rest))"
| "form_urldecode (c # cs) = (if c = CHR ''+'' then CHR '' '' else c) # form_urldecode cs"
| "form_urldecode [] = []"

fun split_on :: "char \<Rightarrow> string \<Rightarrow> string list" where
  "split_on sep [] = [[]]"
| "split_on sep (c # cs) =
     (if c = sep then [] # split_on sep cs
      else (case split_on sep cs of
              w # ws \<Rightarrow> (c # w) # ws
            | [] \<Rightarrow> [[c]]))"

definition split_first :: "char \<Rightarrow> string \<Rightarrow> string \<times> string" where
  "split_first sep s = (takeWhile (\<lambda>c. c \<noteq> sep) s, drop 1 (dropWhile (\<lambda>c. c \<noteq> sep) s))"

definition parse_query :: "string \<Rightarrow> (string \<times> string) list" where
  "parse_query q =
     (let body = (case q of c # cs \<Rightarrow> if c = CHR ''?'' then cs else q | [] \<Rightarrow> [])
      in map (\<lambda>seg. (form_urldecode (fst (split_first CHR ''='' seg)),
                     form_urldecode (snd (split_first CHR ''='' seg))))
           (filter (\<lambda>seg. seg \<noteq> []) (split_on CHR ''&'' body)))"

text \<open>
  The text of a scalar value: a string is written as it is, a number as the plain
  decimal numeral that reads back as the number (an optional minus sign and digits, with
  no leading zero), a boolean as \<^verbatim>\<open>true\<close> or \<^verbatim>\<open>false\<close>. For other values (objects, nested
  arrays, a null or undefined element of an array) the specification fixes no text.
\<close>

definition digit_value :: "char \<Rightarrow> nat option" where
  "digit_value c =
     (let n = (of_char c :: nat) in if 48 \<le> n \<and> n \<le> 57 then Some (n - 48) else None)"

fun read_digits :: "string \<Rightarrow> nat \<Rightarrow> nat option" where
  "read_digits [] acc = Some acc"
| "read_digits (c # cs) acc =
     (case digit_value c of None \<Rightarrow> None | Some d \<Rightarrow> read_digits cs (10 * acc + d))"

definition read_decimal :: "string \<Rightarrow> int option" where
  "read_decimal t =
     (case t of
        [] \<Rightarrow> None
      | c # cs \<Rightarrow>
          if c = CHR ''-''
          then (if cs = [] then None else map_option (\<lambda>m. - int m) (read_digits cs 0))
          else map_option int (read_digits t 0))"

definition plain_numeral :: "string \<Rightarrow> bool" where
  "plain_numeral t =
     (case (case t of c # cs \<Rightarrow> if c = CHR ''-'' then cs else t | [] \<Rightarrow> []) of
        [] \<Rightarrow> False
      | d # rest \<Rightarrow> d \<noteq> CHR ''0'' \<or> t = ''0'')"

fun denotes :: "jsval \<Rightarrow> string \<Rightarrow> bool" where
  "denotes (JStr s) t = (t = s)"
| "denotes (JNum n) t = (read_decimal t = Some (int_of_num n) \<and> plain_numeral t)"
| "denotes (JBool b) t = (t = (if b then ''true'' else ''false''))"
| "denotes v t = True"

text \<open>
  The fields of a parameter object that reach the query string: an undefined or null
  field gives none, an array field gives one per element in array order under the same
  key, any other field gives exactly one.
\<close>

fun field_values :: "string \<times> jsval \<Rightarrow> (string \<times> jsval) list" where
  "field_values (k, JUndefined) = []"
| "field_values (k, JNull) = []"
| "field_values (k, JArr items) = map (Pair k) items"
| "field_values (k, v) = [(k, v)]"

definition query_fields :: "(string \<times> jsval) list \<Rightarrow> (string \<times> jsval) list" where
  "query_fields params = concat (map field_values params)"

text \<open>
  The written form of a list of pairs: nothing for the empty list, otherwise \<^verbatim>\<open>?\<close> and
  the pairs as \<^verbatim>\<open>name=value\<close> with \<^verbatim>\<open>&\<close> between them.
\<close>

definition render_pair :: "string \<times> string \<Rightarrow> string" where
  "render_pair p = fst p @ ''='' @ snd p"

fun query_render :: "(string \<times> string) list \<Rightarrow> string" where
  "query_render [] = []"
| "query_render (p # ps) = ''?'' @ render_pair p @ concat (map (\<lambda>q. ''&'' @ render_pair q) ps)"

text \<open>
  The characters of an encoded name or value: ASCII letters and digits, \<^verbatim>\<open>* - . _\<close>, and
  the two characters \<^verbatim>\<open>+\<close> and \<^verbatim>\<open>%\<close> that write the encoded bytes.
\<close>

definition url_text_char :: "char \<Rightarrow> bool" where
  "url_text_char c =
     (let n = (of_char c :: nat) in
        (48 \<le> n \<and> n \<le> 57) \<or> (65 \<le> n \<and> n \<le> 90) \<or> (97 \<le> n \<and> n \<le> 122)
        \<or> n \<in> {42, 45, 46, 95, 43, 37})"

text \<open>Two abbreviations for the proofs: the pairs of a field list, and one written pair.\<close>

definition texts :: "(string \<times> jsval) list \<Rightarrow> (string \<times> string) list" where
  "texts fs = map (\<lambda>f. (fst f, js_String (snd f))) fs"

definition segment :: "string \<times> string \<Rightarrow> string" where
  "segment p = urlencode (fst p) @ ''='' @ urlencode (snd p)"


section \<open>Properties of the error normalizer\<close>

subsection \<open>Auxiliary facts\<close>

lemma shape_code_is_string:
  assumes "isServerErrorShape body"
  shows "\<exists>c. get_prop (get_prop body ''error'') ''code'' = JStr c"
proof -
  from assms have "typeof (get_prop (get_prop body ''error'') ''code'') = ''string''"
    by (simp add: isServerErrorShape_def Let_def split: if_splits)
  then show ?thesis
    by (cases "get_prop (get_prop body ''error'') ''code''") simp_all
qed

lemma shape_code_kept:
  assumes "isServerErrorShape body"
  shows "code (toApiError st body fb) = get_prop (get_prop body ''error'') ''code''"
proof -
  from shape_code_is_string [OF assms] obtain c
    where "get_prop (get_prop body ''error'') ''code'' = JStr c" by blast
  with assms show ?thesis
    by (simp add: toApiError_def Let_def coalesce_def)
qed

lemma no_shape_with_status:
  assumes "\<not> isServerErrorShape body"
  shows "toApiError (Some n) body fb =
    \<lparr> code = JStr (mapHttpStatusToCode n),
      message = coalesce (opt_str fb) (JStr ''ERROR''),
      status = Some n, details = body \<rparr>"
  using assms by (simp add: toApiError_def)

lemma no_shape_no_status:
  assumes "\<not> isServerErrorShape body"
  shows "toApiError None body fb =
    \<lparr> code = JStr NETWORK_ERROR,
      message = coalesce (opt_str fb) (JStr MSG_NETWORK_DEFAULT),
      status = None, details = body \<rparr>"
  using assms by (simp add: toApiError_def)



lemma mapHttpStatusToCode_member:
  "mapHttpStatusToCode n \<in> set ApiErrorCode_members"
  by (simp add: mapHttpStatusToCode_def ApiErrorCode_members_def)

lemma shape_example:
  "isServerErrorShape (JObj [(''error'', JObj ((''code'', JStr c) # rest))])"
  by (simp add: isServerErrorShape_def)

lemma primitive_no_shape:
  "\<not> isServerErrorShape (JStr s)" "\<not> isServerErrorShape JNull"
  "\<not> isServerErrorShape JUndefined"
  by (simp_all add: isServerErrorShape_def)

subsection \<open>No status supplied\<close>

text \<open>
  C1, as stated, fails: with no status and the body \<^verbatim>\<open>{ error: { code: "FORBIDDEN" } }\<close>
  the shape test comes first and the returned code is \<^verbatim>\<open>FORBIDDEN\<close>, not
  \<^verbatim>\<open>NETWORK_ERROR\<close>.
\<close>

theorem no_status_structured_body_counterexample:
  "isServerErrorShape (JObj [(''error'', JObj [(''code'', JStr FORBIDDEN)])])
   \<and> code (toApiError None (JObj [(''error'', JObj [(''code'', JStr FORBIDDEN)])]) None)
       = JStr FORBIDDEN
   \<and> code (toApiError None (JObj [(''error'', JObj [(''code'', JStr FORBIDDEN)])]) None)
       \<noteq> JStr NETWORK_ERROR"
  by (simp add: shape_code_kept [OF shape_example] shape_example)

text \<open>
  C1, amended: when no status is supplied, the returned code is \<^verbatim>\<open>NETWORK_ERROR\<close> for
  every body that does not match the Structured Server Error Body shape, whatever the
  fallback message; for a body that matches the shape the code is the body's own
  \<^verbatim>\<open>error.code\<close>.
\<close>

theorem no_status_code:
  "code (toApiError None body fb) =
     (if isServerErrorShape body then get_prop (get_prop body ''error'') ''code''
      else JStr NETWORK_ERROR)"
  by (simp add: shape_code_kept no_shape_no_status)

text \<open>C1, a run: no status, the body a thrown message, no fallback message.\<close>

theorem no_status_code_witness:
  "\<not> isServerErrorShape (JStr ''Failed to fetch'')
   \<and> code (toApiError None (JStr ''Failed to fetch'') None) = JStr NETWORK_ERROR"
  using no_status_code [of "JStr ''Failed to fetch''" None]
  by (simp add: primitive_no_shape)

subsection \<open>The closed enumeration\<close>

text \<open>
  C2, as stated, fails: the code of a structured body is passed through unchecked, so the
  body \<^verbatim>\<open>{ error: { code: "TEAPOT" } }\<close> with status 418 yields the code \<^verbatim>\<open>TEAPOT\<close>,
  which is none of the nine members.
\<close>

theorem code_outside_enumeration_counterexample:
  "code (toApiError (Some 418) (JObj [(''error'', JObj [(''code'', JStr ''TEAPOT'')])]) None)
     \<notin> JStr ` set ApiErrorCode_members"
  by (simp add: shape_code_kept [OF shape_example] ApiErrorCode_members_def)

text \<open>
  C2, amended: for every status, body and fallback message, the returned code is one of
  the nine members of the enumeration provided that the body does not match the
  structured shape, or matches it with an \<^verbatim>\<open>error.code\<close> that is itself one of the nine
  members.
\<close>

theorem code_in_enumeration:
  assumes "isServerErrorShape body \<longrightarrow>
             get_prop (get_prop body ''error'') ''code'' \<in> JStr ` set ApiErrorCode_members"
  shows "code (toApiError st body fb) \<in> JStr ` set ApiErrorCode_members"
proof (cases "isServerErrorShape body")
  case True
  with assms show ?thesis by (simp add: shape_code_kept)
next
  case False
  show ?thesis
  proof (cases st)
    case None
    with False show ?thesis
      by (simp add: no_shape_no_status ApiErrorCode_members_def)
  next
    case (Some n)
    with False show ?thesis
      using mapHttpStatusToCode_member [of n] by (simp add: no_shape_with_status)
  qed
qed

text \<open>
  C2, two runs: a structured body carrying the member \<^verbatim>\<open>UNAUTHORIZED\<close> with status 401,
  and an absent body with status 503.
\<close>

theorem code_in_enumeration_witness:
  "isServerErrorShape (JObj [(''error'', JObj [(''code'', JStr UNAUTHORIZED)])])
   \<and> code (toApiError (Some 401) (JObj [(''error'', JObj [(''code'', JStr UNAUTHORIZED)])]) None)
       \<in> JStr ` set ApiErrorCode_members
   \<and> code (toApiError (Some 503) JNull None) \<in> JStr ` set ApiErrorCode_members"
proof -
  let ?b = "JObj [(''error'', JObj [(''code'', JStr UNAUTHORIZED)])]"
  have m: "get_prop (get_prop ?b ''error'') ''code'' \<in> JStr ` set ApiErrorCode_members"
    by (simp add: ApiErrorCode_members_def)
  have "code (toApiError (Some 401) ?b None) \<in> JStr ` set ApiErrorCode_members"
    using code_in_enumeration [of ?b "Some 401" None] m by blast
  moreover have "code (toApiError (Some 503) JNull None) \<in> JStr ` set ApiErrorCode_members"
    using code_in_enumeration [of JNull "Some 503" None] by (simp add: primitive_no_shape)
  ultimately show ?thesis by (simp add: shape_example)
qed

subsection \<open>The code of a structured body\<close>

text \<open>
  C3, as stated, fails: the fallback \<^verbatim>\<open>code ?? ...\<close> fires on null and undefined only,
  and the shape test has made the code a string. For the body
  \<^verbatim>\<open>{ error: { code: "" } }\<close> with status 403 the returned code is the empty string, not
  the status-derived \<^verbatim>\<open>FORBIDDEN\<close>.
\<close>

theorem empty_code_counterexample:
  "code (toApiError (Some 403) (JObj [(''error'', JObj [(''code'', JStr [])])]) None) = JStr []
   \<and> code (toApiError (Some 403) (JObj [(''error'', JObj [(''code'', JStr [])])]) None)
       \<noteq> JStr (mapHttpStatusToCode 403)"
  by (simp add: shape_code_kept [OF shape_example] mapHttpStatusToCode_def)

text \<open>
  C3, amended: for every call in which the body matches the structured shape, the
  returned code is the extracted \<^verbatim>\<open>error.code\<close>, a string, for every status (present or
  not) and also when that string is empty; neither the status mapping nor
  \<^verbatim>\<open>UNKNOWN_ERROR\<close> is used.
\<close>

theorem structured_code_returned:
  assumes "isServerErrorShape body"
  shows "\<exists>c. get_prop (get_prop body ''error'') ''code'' = JStr c
           \<and> code (toApiError st body fb) = JStr c"
  using shape_code_is_string [OF assms] shape_code_kept [OF assms] by auto

text \<open>C3, a run: the body \<^verbatim>\<open>{ error: { code: "EXPIRED", message: "gone" } }\<close>, status 410.\<close>

theorem structured_code_returned_witness:
  "isServerErrorShape (JObj [(''error'', JObj [(''code'', JStr EXPIRED), (''message'', JStr ''gone'')])])
   \<and> code (toApiError (Some 410)
             (JObj [(''error'', JObj [(''code'', JStr EXPIRED), (''message'', JStr ''gone'')])])
             None) = JStr EXPIRED"
  using structured_code_returned
    [OF shape_example [of EXPIRED "[(''message'', JStr ''gone'')]"], of "Some 410" None]
  by (simp add: shape_example)

subsection \<open>The status table\<close>

text \<open>
  C6: when the body does not match the structured shape and a status \<open>n\<close> is present, the
  code is \<^verbatim>\<open>VALIDATION_ERROR\<close> for 400, \<^verbatim>\<open>UNAUTHORIZED\<close> for 401, \<^verbatim>\<open>FORBIDDEN\<close> for 403,
  \<^verbatim>\<open>NOT_FOUND\<close> for 404, \<^verbatim>\<open>EXPIRED\<close> for 410, \<^verbatim>\<open>SERVER_ERROR\<close> for every status from
  500 up, and \<^verbatim>\<open>UNKNOWN_ERROR\<close> for every other status; the message is the fallback
  message, or the generic \<^verbatim>\<open>ERROR\<close> when there is none; the details are the raw body.
\<close>

theorem status_table:
  assumes "\<not> isServerErrorShape body"
  shows "(n = 400 \<longrightarrow> code (toApiError (Some n) body fb) = JStr VALIDATION_ERROR)
       \<and> (n = 401 \<longrightarrow> code (toApiError (Some n) body fb) = JStr UNAUTHORIZED)
       \<and> (n = 403 \<longrightarrow> code (toApiError (Some n) body fb) = JStr FORBIDDEN)
       \<and> (n = 404 \<longrightarrow> code (toApiError (Some n) body fb) = JStr NOT_FOUND)
       \<and> (n = 410 \<longrightarrow> code (toApiError (Some n) body fb) = JStr EXPIRED)
       \<and> (500 \<le> n \<longrightarrow> code (toApiError (Some n) body fb) = JStr SERVER_ERROR)
       \<and> (n \<notin> {400, 401, 403, 404, 410} \<and> n < 500 \<longrightarrow>
            code (toApiError (Some n) body fb) = JStr UNKNOWN_ERROR)
       \<and> message (toApiError (Some n) body fb) =
            (case fb of Some m \<Rightarrow> JStr m | None \<Rightarrow> JStr ''ERROR'')
       \<and> details (toApiError (Some n) body fb) = body
       \<and> status (toApiError (Some n) body fb) = Some n"
  by (simp add: no_shape_with_status [OF assms] mapHttpStatusToCode_def coalesce_def
      split: option.splits)

text \<open>C6, two runs: status 418 with a text body, status 502 with an absent body.\<close>

theorem status_table_witness:
  "\<not> isServerErrorShape (JStr ''teapot'')
   \<and> code (toApiError (Some 418) (JStr ''teapot'') None) = JStr UNKNOWN_ERROR
   \<and> message (toApiError (Some 418) (JStr ''teapot'') None) = JStr ''ERROR''
   \<and> details (toApiError (Some 418) (JStr ''teapot'') None) = JStr ''teapot''
   \<and> code (toApiError (Some 502) JNull (Some ''bad gateway'')) = JStr SERVER_ERROR
   \<and> message (toApiError (Some 502) JNull (Some ''bad gateway'')) = JStr ''bad gateway''"
  using status_table [OF primitive_no_shape(1), of 418 "''teapot''" None]
    status_table [OF primitive_no_shape(2), of 502 "Some ''bad gateway''"]
  by (simp add: primitive_no_shape)

subsection \<open>Precedence of the structured code\<close>

text \<open>
  C7: with status 403 and a body \<^verbatim>\<open>{ error: { code: "PURCHASE_REQUIRED", ... } }\<close> the
  returned code is \<^verbatim>\<open>PURCHASE_REQUIRED\<close>, for every fallback message, although the status
  alone maps to \<^verbatim>\<open>FORBIDDEN\<close>.
\<close>

theorem purchase_required_wins:
  "code (toApiError (Some 403)
           (JObj [(''error'', JObj ((''code'', JStr PURCHASE_REQUIRED) # rest))]) fb)
     = JStr PURCHASE_REQUIRED
   \<and> mapHttpStatusToCode 403 = FORBIDDEN"
  by (simp add: shape_code_kept [OF shape_example] mapHttpStatusToCode_def)

text \<open>C7, a run: exactly the body \<^verbatim>\<open>{ error: { code: "PURCHASE_REQUIRED" } }\<close>.\<close>

theorem purchase_required_wins_witness:
  "code (toApiError (Some 403) (JObj [(''error'', JObj [(''code'', JStr PURCHASE_REQUIRED)])]) None)
     = JStr PURCHASE_REQUIRED"
  using purchase_required_wins [of "[]" None] by simp


section \<open>Properties of the request executor\<close>

subsection \<open>Auxiliary facts\<close>


lemma request_resolves:
  assumes "fetch (request_url base path) (fetch_init opts init) w = (Resolves res, w')"
  shows "request fetch opts base path init w =
           (if res_ok res then Inr (decode_body res)
            else Inl (toApiError (Some (res_status res)) (decode_body res) (Some MSG_SERVER)), w')"
  using assms by (simp add: request_def Let_def)


lemma decode_body_fails:
  assumes "decoding_fails res"
  shows "decode_body res = JNull"
  using assms by (simp add: decoding_fails_def decode_body_def Let_def split: if_splits)


lemma responding_call:
  "transport_responding res url init calls = (Resolves res, calls @ [(url, init)])"
  by (simp add: transport_responding_def)

subsection \<open>Transport failure\<close>




subsection \<open>A response was obtained\<close>

text \<open>
  C5: whenever the transport call resolves with a response, \<^verbatim>\<open>request\<close> resolves with the
  decoded body if the status is in 200..299, and otherwise rejects with the one ApiError
  that the normalizer produces from that status, the decoded body and the server
  fallback message. The result type admits no other outcome.
\<close>

theorem response_outcome:
  assumes "fetch (request_url base path) (fetch_init opts init) w = (Resolves res, w')"
  shows "request fetch opts base path init w =
           (if 200 \<le> res_status res \<and> res_status res \<le> 299
            then Inr (decode_body res)
            else Inl (toApiError (Some (res_status res)) (decode_body res) (Some MSG_SERVER)),
            w')"
  using request_resolves [where fetch = fetch, OF assms] by (simp add: res_ok_def)

text \<open>
  C5, two runs of \<^verbatim>\<open>post("/auth/signin", ...)\<close> on the shared client: a 401 response with
  the JSON body \<^verbatim>\<open>{ error: { code: "UNAUTHORIZED" } }\<close> rejects with that code and status
  401; a 200 response with a JSON body resolves with the body.
\<close>

theorem response_outcome_witness:
  "fst (post
          (transport_responding
             \<lparr> res_status = 401, res_content_type = Some ''application/json'',
               res_json = Some (JObj [(''error'', JObj [(''code'', JStr UNAUTHORIZED)])]),
               res_text = None \<rparr>)
          apiClient (Some ''https://api.example.com'') ''/auth/signin''
          (JObj [(''email'', JStr ''a@b.c''), (''password'', JStr ''pw'')]) [])
     = Inl \<lparr> code = JStr UNAUTHORIZED, message = JStr MSG_SERVER, status = Some 401,
             details = JObj [(''error'', JObj [(''code'', JStr UNAUTHORIZED)])] \<rparr>
   \<and> fst (post
          (transport_responding
             \<lparr> res_status = 200, res_content_type = Some ''application/json'',
               res_json = Some (JObj [(''user'', JObj [(''id'', JStr ''u1''), (''email'', JStr ''a@b.c'')])]),
               res_text = None \<rparr>)
          apiClient (Some ''https://api.example.com'') ''/auth/signin''
          (JObj [(''email'', JStr ''a@b.c''), (''password'', JStr ''pw'')]) [])
     = Inr (JObj [(''user'', JObj [(''id'', JStr ''u1''), (''email'', JStr ''a@b.c'')])])"
proof -
  let ?bad = "\<lparr> res_status = 401, res_content_type = Some ''application/json'',
               res_json = Some (JObj [(''error'', JObj [(''code'', JStr UNAUTHORIZED)])]),
               res_text = None \<rparr>"
  let ?good = "\<lparr> res_status = 200, res_content_type = Some ''application/json'',
               res_json = Some (JObj [(''user'', JObj [(''id'', JStr ''u1''), (''email'', JStr ''a@b.c'')])]),
               res_text = None \<rparr>"
  have bad: "decode_body ?bad = JObj [(''error'', JObj [(''code'', JStr UNAUTHORIZED)])]"
    by (simp add: decode_body_def)
  have good: "decode_body ?good = JObj [(''user'', JObj [(''id'', JStr ''u1''), (''email'', JStr ''a@b.c'')])]"
    by (simp add: decode_body_def)
  have err: "toApiError (Some 401) (JObj [(''error'', JObj [(''code'', JStr UNAUTHORIZED)])]) (Some MSG_SERVER)
      = \<lparr> code = JStr UNAUTHORIZED, message = JStr MSG_SERVER, status = Some 401,
             details = JObj [(''error'', JObj [(''code'', JStr UNAUTHORIZED)])] \<rparr>"
    by (simp add: toApiError_def shape_example coalesce_def Let_def)
  show ?thesis
    using response_outcome [where fetch = "transport_responding ?bad", OF responding_call]
      response_outcome [where fetch = "transport_responding ?good", OF responding_call]
    by (simp add: post_def bad good err)
qed

subsection \<open>A success status with an undecodable body\<close>

text \<open>
  C8: whenever the transport call resolves with a response whose status is in 200..299
  and whose body cannot be decoded (JSON content type and \<^verbatim>\<open>json()\<close> rejects, or any other
  content type and \<^verbatim>\<open>text()\<close> rejects), \<^verbatim>\<open>request\<close> resolves with null; no error is
  raised.
\<close>

theorem undecodable_success:
  assumes "fetch (request_url base path) (fetch_init opts init) w = (Resolves res, w')"
    and "200 \<le> res_status res" and "res_status res \<le> 299"
    and "decoding_fails res"
  shows "request fetch opts base path init w = (Inr JNull, w')"
  using request_resolves [where fetch = fetch, OF assms(1)] assms(2,3)
    decode_body_fails [OF assms(4)]
  by (simp add: res_ok_def)

text \<open>
  C8, two runs of \<^verbatim>\<open>get("/me")\<close>: status 200 with an HTML content type whose text cannot
  be read, and status 204 with a JSON content type whose body does not parse.
\<close>

theorem undecodable_success_witness:
  "decoding_fails \<lparr> res_status = 200, res_content_type = Some ''text/html'',
                    res_json = None, res_text = None \<rparr>
   \<and> decoding_fails \<lparr> res_status = 204, res_content_type = Some ''application/json'',
                    res_json = None, res_text = Some [] \<rparr>
   \<and> fst (get (transport_responding
              \<lparr> res_status = 200, res_content_type = Some ''text/html'',
                res_json = None, res_text = None \<rparr>)
            apiClient (Some ''https://api.example.com'') ''/me'' []) = Inr JNull
   \<and> fst (get (transport_responding
              \<lparr> res_status = 204, res_content_type = Some ''application/json'',
                res_json = None, res_text = Some [] \<rparr>)
            apiClient (Some ''https://api.example.com'') ''/me'' []) = Inr JNull"
proof -
  let ?a = "\<lparr> res_status = 200, res_content_type = Some ''text/html'',
                res_json = None, res_text = None \<rparr>"
  let ?b = "\<lparr> res_status = 204, res_content_type = Some ''application/json'',
                res_json = None, res_text = Some [] \<rparr>"
  have fa: "decoding_fails ?a" by (simp add: decoding_fails_def)
  have fb: "decoding_fails ?b" by (simp add: decoding_fails_def)
  have "fst (get (transport_responding ?a) apiClient (Some ''https://api.example.com'') ''/me'' []) = Inr JNull"
    using undecodable_success [where fetch = "transport_responding ?a", OF responding_call _ _ fa]
    by (simp add: get_def)
  moreover
  have "fst (get (transport_responding ?b) apiClient (Some ''https://api.example.com'') ''/me'' []) = Inr JNull"
    using undecodable_success [where fetch = "transport_responding ?b", OF responding_call _ _ fb]
    by (simp add: get_def)
  ultimately show ?thesis using fa fb by simp
qed

subsection \<open>An unset base URL\<close>




section \<open>Properties of the query-string builder\<close>

subsection \<open>The text of a value\<close>

lemma read_digits_append:
  "read_digits (xs @ ys) acc =
     (case read_digits xs acc of None \<Rightarrow> None | Some a \<Rightarrow> read_digits ys a)"
  by (induction xs arbitrary: acc) (auto split: option.splits)

lemma digit_value_char: "d < 10 \<Longrightarrow> digit_value (char_of (48 + d)) = Some d"
  by (simp add: digit_value_def)

lemma read_digits_nat_digits: "read_digits (nat_digits n) 0 = Some n"
proof (induction n rule: nat_digits.induct)
  case (1 n)
  show ?case
  proof (cases "n < 10")
    case True
    then show ?thesis
      by (simp add: nat_digits.simps [of n] digit_value_char)
  next
    case False
    with 1 have ih: "read_digits (nat_digits (n div 10)) 0 = Some (n div 10)" by simp
    have d: "digit_value (char_of (48 + n mod 10)) = Some (n mod 10)"
      by (rule digit_value_char) simp
    from False show ?thesis
      by (simp add: nat_digits.simps [of n] read_digits_append ih d)
  qed
qed

lemma nat_digits_nonempty: "nat_digits n \<noteq> []"
  by (simp add: nat_digits.simps [of n])

lemma nat_digits_hd: "\<exists>c cs. nat_digits n = c # cs \<and> digit_value c \<noteq> None"
proof -
  obtain c cs where eq: "nat_digits n = c # cs"
    using nat_digits_nonempty [of n] by (cases "nat_digits n") auto
  have "read_digits (c # cs) 0 = Some n"
    using read_digits_nat_digits [of n] eq by simp
  then have "digit_value c \<noteq> None" by (auto split: option.splits)
  with eq show ?thesis by blast
qed

lemma minus_no_digit: "digit_value (CHR ''-'') = None"
  by (simp add: digit_value_def)

lemma read_decimal_nat_digits: "read_decimal (nat_digits n) = Some (int n)"
proof -
  obtain c cs where eq: "nat_digits n = c # cs" and dc: "digit_value c \<noteq> None"
    using nat_digits_hd by blast
  from dc minus_no_digit have "c \<noteq> CHR ''-''" by auto
  then show ?thesis
    using read_digits_nat_digits [of n] eq by (simp add: read_decimal_def)
qed

lemma read_decimal_num_to_string: "read_decimal (num_to_string n) = Some (int_of_num n)"
proof (cases "int_of_num n < 0")
  case True
  then show ?thesis
    by (simp add: num_to_string_def read_decimal_def nat_digits_nonempty read_digits_nat_digits)
next
  case False
  then show ?thesis
    by (simp add: num_to_string_def read_decimal_nat_digits)
qed

lemma nat_digits_zero: "nat_digits 0 = ''0''"
  by code_simp

lemma digit_char_zero:
  fixes n :: nat
  assumes n: "n < 10" and eq: "char_of (48 + n) = CHR ''0''"
  shows "n = 0"
proof -
  from eq have "(of_char (char_of (48 + n)) :: nat) = of_char (CHR ''0'')" by simp
  with n show "n = 0" by simp
qed

lemma nat_digits_leading_zero:
  "nat_digits n = CHR ''0'' # rest \<Longrightarrow> n = 0"
proof (induction n arbitrary: rest rule: nat_digits.induct)
  case (1 n)
  show ?case
  proof (cases "n < 10")
    case True
    with 1(2) show ?thesis
      by (simp add: nat_digits.simps [of n] digit_char_zero)
  next
    case False
    obtain d ds where hd: "nat_digits (n div 10) = d # ds"
      using nat_digits_nonempty [of "n div 10"] by (cases "nat_digits (n div 10)") auto
    from False 1(2) hd have "d = CHR ''0''"
      by (simp add: nat_digits.simps [of n])
    with 1(1) [OF False] hd have "n div 10 = 0" by simp
    with False show ?thesis by simp
  qed
qed

lemma plain_numeral_num_to_string: "plain_numeral (num_to_string n)"
proof (cases "int_of_num n < 0")
  case True
  obtain d ds where hd: "nat_digits (nat (- int_of_num n)) = d # ds"
    using nat_digits_nonempty by (cases "nat_digits (nat (- int_of_num n))") auto
  have "d \<noteq> CHR ''0''"
  proof
    assume "d = CHR ''0''"
    with hd nat_digits_leading_zero have "nat (- int_of_num n) = 0" by blast
    with True show False by simp
  qed
  with True hd show ?thesis
    by (simp add: num_to_string_def plain_numeral_def)
next
  case False
  obtain d ds where hd: "nat_digits (nat (int_of_num n)) = d # ds" and dd: "digit_value d \<noteq> None"
    using nat_digits_hd by blast
  from dd minus_no_digit have nm: "d \<noteq> CHR ''-''" by auto
  show ?thesis
  proof (cases "d = CHR ''0''")
    case True
    with hd nat_digits_leading_zero have "nat (int_of_num n) = 0" by blast
    with False show ?thesis
      by (simp add: num_to_string_def plain_numeral_def nat_digits_zero)
  next
    case nz: False
    with False hd nm show ?thesis
      by (simp add: num_to_string_def plain_numeral_def)
  qed
qed

lemma denotes_js_String: "denotes v (js_String v)"
  by (cases v) (simp_all add: read_decimal_num_to_string plain_numeral_num_to_string)

subsection \<open>The loop of \<^verbatim>\<open>buildQuery\<close>\<close>

lemma append_items_eq:
  "append_items sp k items = sp @ map (\<lambda>item. (k, js_String item)) items"
  by (induction items arbitrary: sp) (simp_all add: sp_append_def)

lemma sp_set_fresh:
  "k \<notin> fst ` set sp \<Longrightarrow> sp_set sp k v = sp @ [(k, v)]"
  by (induction sp) auto

lemma fst_field_values: "fst ` set (field_values (k, v)) \<subseteq> {k}"
  by (cases v) auto


lemma buildQuery_loop_eq:
  "distinct (map fst entries) \<Longrightarrow> fst ` set entries \<inter> fst ` set sp = {} \<Longrightarrow>
   buildQuery_loop entries sp = sp @ texts (query_fields entries)"
proof (induction entries arbitrary: sp)
  case Nil
  then show ?case by (simp add: query_fields_def texts_def)
next
  case (Cons e entries)
  obtain k v where e: "e = (k, v)" by (cases e)
  from Cons.prems e have fresh: "k \<notin> fst ` set sp" and dist: "distinct (map fst entries)"
    and knot: "k \<notin> fst ` set entries" and disj: "fst ` set entries \<inter> fst ` set sp = {}"
    by auto
  have names: "fst ` set (texts (field_values (k, v))) \<subseteq> {k}"
    using fst_field_values [of k v] by (auto simp: texts_def)
  have step: "fst ` set entries \<inter> fst ` set (sp @ texts (field_values (k, v))) = {}"
    using disj knot names by (auto simp: image_Un)
  have one: "buildQuery_loop (e # entries) sp
               = buildQuery_loop entries (sp @ texts (field_values (k, v)))"
    using fresh by (cases v) (simp_all add: e append_items_eq sp_set_fresh texts_def comp_def)
  show ?case
    unfolding one using Cons.IH [OF dist step]
    by (simp add: e query_fields_def texts_def)
qed

subsection \<open>Encoding and decoding\<close>

lemma hex_value_upper: "hex_value (hex_upper d) = Some (d mod 16)"
proof -
  define m where "m = d mod 16"
  have "m < 16" by (simp add: m_def)
  then have "m = 0 \<or> m = 1 \<or> m = 2 \<or> m = 3 \<or> m = 4 \<or> m = 5 \<or> m = 6 \<or> m = 7
           \<or> m = 8 \<or> m = 9 \<or> m = 10 \<or> m = 11 \<or> m = 12 \<or> m = 13 \<or> m = 14 \<or> m = 15"
    by arith
  then have "hex_value (''0123456789ABCDEF'' ! m) = Some m"
    by (elim disjE) (simp_all add: hex_value_def)
  then show ?thesis by (simp add: hex_upper_def m_def)
qed

lemma url_text_char_hex_upper: "url_text_char (hex_upper d)"
proof -
  define m where "m = d mod 16"
  have "m < 16" by (simp add: m_def)
  then have "m = 0 \<or> m = 1 \<or> m = 2 \<or> m = 3 \<or> m = 4 \<or> m = 5 \<or> m = 6 \<or> m = 7
           \<or> m = 8 \<or> m = 9 \<or> m = 10 \<or> m = 11 \<or> m = 12 \<or> m = 13 \<or> m = 14 \<or> m = 15"
    by arith
  then have "url_text_char (''0123456789ABCDEF'' ! m)"
    by (elim disjE) (simp_all add: url_text_char_def)
  then show ?thesis by (simp add: hex_upper_def m_def)
qed

lemma byte_recombined: "char_of (16 * ((of_char c :: nat) div 16 mod 16) + of_char c mod 16) = c"
proof -
  have "(of_char c :: nat) < 16 * 16" using nat_of_char_less_256 [of c] by simp
  then have "(of_char c :: nat) div 16 < 16" by (rule less_mult_imp_div_less)
  then have "(of_char c :: nat) div 16 mod 16 = of_char c div 16" by simp
  then show ?thesis by simp
qed

lemma form_urldecode_plain:
  "c \<noteq> CHR ''%'' \<Longrightarrow>
   form_urldecode (c # cs) = (if c = CHR ''+'' then CHR '' '' else c) # form_urldecode cs"
  by (cases "(c # cs)" rule: form_urldecode.cases) auto

lemma form_urldecode_escape:
  "hex_value h = Some a \<Longrightarrow> hex_value l = Some b \<Longrightarrow>
   form_urldecode (CHR ''%'' # h # l # rest) = char_of (16 * a + b) # form_urldecode rest"
  by simp

lemma safe_not_special:
  "urlencoded_safe c \<Longrightarrow> c \<noteq> CHR ''%'' \<and> c \<noteq> CHR ''+'' \<and> c \<noteq> CHR ''&'' \<and> c \<noteq> CHR ''=''
     \<and> c \<noteq> CHR '' ''"
  by (auto simp: urlencoded_safe_def)

lemma form_urldecode_byte:
  "form_urldecode (urlencode_byte c @ rest) = c # form_urldecode rest"
proof (cases "urlencoded_safe c")
  case True
  with safe_not_special [of c] show ?thesis
    by (simp add: urlencode_byte_def form_urldecode_plain)
next
  case False
  show ?thesis
  proof (cases "c = CHR '' ''")
    case True
    with False show ?thesis
      by (simp add: urlencode_byte_def form_urldecode_plain)
  next
    case ns: False
    have "form_urldecode (CHR ''%'' # hex_upper (of_char c div 16) # hex_upper (of_char c) # rest)
            = char_of (16 * ((of_char c :: nat) div 16 mod 16) + of_char c mod 16)
                # form_urldecode rest"
      by (rule form_urldecode_escape) (rule hex_value_upper)+
    with False ns show ?thesis
      by (simp add: urlencode_byte_def byte_recombined del: form_urldecode.simps)
  qed
qed

lemma form_urldecode_urlencode: "form_urldecode (urlencode s) = s"
proof (induction s)
  case Nil
  show ?case by (simp add: urlencode_def)
next
  case (Cons c s)
  have "urlencode (c # s) = urlencode_byte c @ urlencode s"
    by (simp add: urlencode_def)
  with Cons show ?case by (simp add: form_urldecode_byte del: form_urldecode.simps)
qed

lemma url_text_char_not_separator:
  "url_text_char x \<Longrightarrow> x \<noteq> CHR ''&'' \<and> x \<noteq> CHR ''='' \<and> x \<noteq> CHR ''?'' \<and> x \<noteq> CHR '' ''"
  by (auto simp: url_text_char_def)

lemma urlencode_byte_chars: "x \<in> set (urlencode_byte c) \<Longrightarrow> url_text_char x"
proof (cases "urlencoded_safe c")
  case True
  assume "x \<in> set (urlencode_byte c)"
  with True have "x = c" by (simp add: urlencode_byte_def)
  with True show ?thesis
    by (auto simp: urlencoded_safe_def url_text_char_def Let_def)
next
  case False
  assume x: "x \<in> set (urlencode_byte c)"
  show ?thesis
  proof (cases "c = CHR '' ''")
    case True
    with False x have "x = CHR ''+''" by (simp add: urlencode_byte_def)
    then show ?thesis by (simp add: url_text_char_def)
  next
    case ns: False
    with False x have "x = CHR ''%'' \<or> x = hex_upper (of_char c div 16) \<or> x = hex_upper (of_char c)"
      by (auto simp: urlencode_byte_def)
    then show ?thesis
      using url_text_char_hex_upper by (auto simp: url_text_char_def)
  qed
qed

lemma urlencode_chars: "x \<in> set (urlencode s) \<Longrightarrow> url_text_char x"
  using urlencode_byte_chars by (auto simp: urlencode_def)

lemma urlencode_no_separator:
  "CHR ''&'' \<notin> set (urlencode s)" "CHR ''='' \<notin> set (urlencode s)"
  "CHR ''?'' \<notin> set (urlencode s)" "CHR '' '' \<notin> set (urlencode s)"
  using urlencode_chars [of _ s] url_text_char_not_separator by blast+

subsection \<open>Splitting\<close>

lemma split_on_nonempty: "split_on sep s \<noteq> []"
  by (induction s) (auto split: list.splits)

lemma split_on_no_sep: "sep \<notin> set s \<Longrightarrow> split_on sep s = [s]"
  by (induction s) auto

lemma split_on_append:
  "sep \<notin> set x \<Longrightarrow> split_on sep (x @ sep # rest) = x # split_on sep rest"
  by (induction x) auto

lemma split_first_pair:
  "sep \<notin> set a \<Longrightarrow> split_first sep (a @ sep # b) = (a, b)"
  by (induction a) (auto simp: split_first_def)


subsection \<open>Serialising and reading back\<close>


lemma sp_toString_segments: "sp_toString sp = join ''&'' (map segment sp)"
proof -
  have "(\<lambda>(k, v). urlencode k @ ''='' @ urlencode v) = segment"
    by (auto simp: segment_def fun_eq_iff)
  then show ?thesis by (simp add: sp_toString_def)
qed

lemma join_Cons: "join sep (x # xs) = x @ concat (map (\<lambda>y. sep @ y) xs)"
  by (induction xs arbitrary: x) simp_all

lemma segment_no_amp: "CHR ''&'' \<notin> set (segment p)"
  using urlencode_no_separator(1) by (simp add: segment_def)

lemma segment_nonempty: "segment p \<noteq> []"
  by (simp add: segment_def)

lemma split_on_join:
  "segs \<noteq> [] \<Longrightarrow> (\<And>s. s \<in> set segs \<Longrightarrow> sep \<notin> set s) \<Longrightarrow>
   split_on sep (join [sep] segs) = segs"
proof (induction "[sep]" segs rule: join.induct)
  case 1
  then show ?case by simp
next
  case (2 x)
  then show ?case by (simp add: split_on_no_sep)
next
  case (3 x y ys)
  have "split_on sep (join [sep] (y # ys)) = y # ys"
    using 3 by simp
  moreover have "sep \<notin> set x" using 3 by simp
  ultimately show ?case
    by (simp add: split_on_append del: split_on.simps)
qed

lemma parse_segment:
  "(form_urldecode (fst (split_first CHR ''='' (segment p))),
    form_urldecode (snd (split_first CHR ''='' (segment p)))) = p"
proof -
  have "split_first CHR ''='' (segment p) = (urlencode (fst p), urlencode (snd p))"
    unfolding segment_def using urlencode_no_separator(2) [of "fst p"]
    by (simp add: split_first_pair)
  then show ?thesis by (simp add: form_urldecode_urlencode)
qed

lemma parse_query_empty: "parse_query [] = []"
  by (simp add: parse_query_def)

lemma parse_query_serialised:
  assumes "sp \<noteq> []"
  shows "parse_query (''?'' @ sp_toString sp) = sp"
proof -
  have segs: "split_on CHR ''&'' (join ''&'' (map segment sp)) = map segment sp"
    using assms segment_no_amp by (intro split_on_join) auto
  have keep: "filter (\<lambda>seg. seg \<noteq> []) (map segment sp) = map segment sp"
    using segment_nonempty by (simp add: filter_id_conv)
  show ?thesis
    by (simp add: parse_query_def sp_toString_segments segs keep parse_segment comp_def
        del: split_on.simps)
qed

lemma sp_toString_nonempty: "sp \<noteq> [] \<Longrightarrow> sp_toString sp \<noteq> []"
  by (cases sp) (simp_all add: sp_toString_segments join_Cons segment_nonempty)

lemma buildQuery_of_pairs:
  "buildQuery_loop params [] = sp \<Longrightarrow>
   buildQuery params = (if sp = [] then [] else ''?'' @ sp_toString sp)"
  using sp_toString_nonempty [of sp]
  by (auto simp: buildQuery_def Let_def sp_toString_def)

lemma render_serialised:
  "sp \<noteq> [] \<Longrightarrow>
   ''?'' @ sp_toString sp = query_render (map (\<lambda>p. (urlencode (fst p), urlencode (snd p))) sp)"
  by (cases sp)
     (simp_all add: sp_toString_segments join_Cons segment_def render_pair_def comp_def)

lemma segment_chars: "x \<in> set (segment q) \<Longrightarrow> url_text_char x \<or> x = CHR ''=''"
  using urlencode_chars by (auto simp: segment_def)

lemma join_chars: "c \<in> set (join sep xs) \<Longrightarrow> c \<in> set sep \<or> (\<exists>x \<in> set xs. c \<in> set x)"
  by (induction sep xs rule: join.induct) auto

lemma sp_toString_chars:
  assumes "c \<in> set (sp_toString sp)"
  shows "url_text_char c \<or> c \<in> set ''?&=''"
proof -
  from assms have "c \<in> set ''&'' \<or> (\<exists>x \<in> set (map segment sp). c \<in> set x)"
    unfolding sp_toString_segments by (rule join_chars)
  then consider "c = CHR ''&''" | q where "c \<in> set (segment q)" by auto
  then show ?thesis
  proof cases
    case 1
    then show ?thesis by simp
  next
    case 2
    from segment_chars [OF this] show ?thesis by auto
  qed
qed

lemma int_of_num_of_int:
  "- (2 ^ 53 - 1) \<le> i \<Longrightarrow> i \<le> 2 ^ 53 - 1 \<Longrightarrow> int_of_num (num_of_int i) = i"
  by (simp add: int_of_num_def num_of_int_def Abs_safe_int_inverse)

lemma nat_digits_20: "nat_digits 20 = ''20''"
  by code_simp

subsection \<open>The query string\<close>

text \<open>
  C9: for every parameter object (its keys are distinct), reading the result of
  \<^verbatim>\<open>buildQuery\<close> back with the standard reader gives exactly the fields of the object:
  none for an undefined or null field, one pair per array element in array order under
  the repeated key, exactly one pair for every other field, each under its own key and
  with the text of its value (a string as it is, a number as its decimal numeral, a
  boolean by name). The result is exactly \<^verbatim>\<open>?\<close> followed by these pairs written
  \<^verbatim>\<open>name=value\<close>, both sides encoded, with \<^verbatim>\<open>&\<close> between them; apart from these three
  separators it holds only letters, digits, \<^verbatim>\<open>* - . _\<close> and the escapes \<^verbatim>\<open>+\<close> and \<^verbatim>\<open>%\<close>,
  so every other byte is encoded and no space remains; and the empty parameter set gives
  the empty string, with no \<^verbatim>\<open>?\<close>.
\<close>

theorem buildQuery_meets_spec:
  assumes "distinct (map fst params)"
  shows "list_all2 (\<lambda>f p. fst p = fst f \<and> denotes (snd f) (snd p))
           (query_fields params) (parse_query (buildQuery params))
       \<and> buildQuery params =
           query_render (map (\<lambda>p. (urlencode (fst p), urlencode (snd p)))
                           (parse_query (buildQuery params)))
       \<and> (\<forall>c \<in> set (buildQuery params). url_text_char c \<or> c \<in> set ''?&='')
       \<and> CHR '' '' \<notin> set (buildQuery params)
       \<and> buildQuery [] = []"
proof -
  define sp where "sp = texts (query_fields params)"
  have loop: "buildQuery_loop params [] = sp"
    using buildQuery_loop_eq [OF assms, of "[]"] by (simp add: sp_def)
  have bq: "buildQuery params = (if sp = [] then [] else ''?'' @ sp_toString sp)"
    by (rule buildQuery_of_pairs [OF loop])
  have parsed: "parse_query (buildQuery params) = sp"
    by (simp add: bq parse_query_empty parse_query_serialised del: append.simps)
  have fields: "list_all2 (\<lambda>f p. fst p = fst f \<and> denotes (snd f) (snd p)) (query_fields params) sp"
    by (simp add: sp_def texts_def list_all2_map2 list_all2_same denotes_js_String)
  have format: "buildQuery params =
      query_render (map (\<lambda>p. (urlencode (fst p), urlencode (snd p))) sp)"
    using render_serialised [of sp] by (simp add: bq del: append.simps)
  have chars: "\<forall>c \<in> set (buildQuery params). url_text_char c \<or> c \<in> set ''?&=''"
    using sp_toString_chars [of _ sp] by (auto simp: bq)
  have space: "CHR '' '' \<notin> set (buildQuery params)"
    using chars url_text_char_not_separator [of "CHR '' ''"] by auto
  have empty: "buildQuery [] = []"
    by (simp add: buildQuery_def sp_toString_def)
  from fields format chars space empty show ?thesis
    unfolding parsed by blast
qed

text \<open>
  C9, a run: \<^verbatim>\<open>{ q: "a b&c", tags: ["x","y"], page: undefined, limit: 20, sale: true }\<close>
  gives \<^verbatim>\<open>?q=a+b%26c&tags=x&tags=y&limit=20&sale=true\<close>, which reads back as the five
  pairs of the object.
\<close>

theorem buildQuery_meets_spec_witness:
  "distinct (map fst [(''q'', JStr ''a b&c''), (''tags'', JArr [JStr ''x'', JStr ''y'']),
                      (''page'', JUndefined), (''limit'', JNum (num_of_int 20)),
                      (''sale'', JBool True)])
   \<and> buildQuery [(''q'', JStr ''a b&c''), (''tags'', JArr [JStr ''x'', JStr ''y'']),
                  (''page'', JUndefined), (''limit'', JNum (num_of_int 20)),
                  (''sale'', JBool True)]
       = ''?q=a+b%26c&tags=x&tags=y&limit=20&sale=true''
   \<and> parse_query ''?q=a+b%26c&tags=x&tags=y&limit=20&sale=true''
       = [(''q'', ''a b&c''), (''tags'', ''x''), (''tags'', ''y''), (''limit'', ''20''),
          (''sale'', ''true'')]
   \<and> list_all2 (\<lambda>f p. fst p = fst f \<and> denotes (snd f) (snd p))
         [(''q'', JStr ''a b&c''), (''tags'', JStr ''x''), (''tags'', JStr ''y''),
          (''limit'', JNum (num_of_int 20)), (''sale'', JBool True)]
         (parse_query ''?q=a+b%26c&tags=x&tags=y&limit=20&sale=true'')"
proof -
  let ?params = "[(''q'', JStr ''a b&c''), (''tags'', JArr [JStr ''x'', JStr ''y'']),
                  (''page'', JUndefined), (''limit'', JNum (num_of_int 20)),
                  (''sale'', JBool True)]"
  have d: "distinct (map fst ?params)" by simp
  have n: "num_to_string (num_of_int 20) = ''20''"
    by (simp add: num_to_string_def int_of_num_of_int nat_digits_20)
  have q: "buildQuery ?params = ''?q=a+b%26c&tags=x&tags=y&limit=20&sale=true''"
    by (simp add: buildQuery_def sp_append_def sp_toString_def n urlencode_def
        urlencode_byte_def urlencoded_safe_def hex_upper_def)
  have f: "query_fields ?params =
             [(''q'', JStr ''a b&c''), (''tags'', JStr ''x''), (''tags'', JStr ''y''),
              (''limit'', JNum (num_of_int 20)), (''sale'', JBool True)]"
    by (simp add: query_fields_def)
  have p: "parse_query ''?q=a+b%26c&tags=x&tags=y&limit=20&sale=true''
             = [(''q'', ''a b&c''), (''tags'', ''x''), (''tags'', ''y''), (''limit'', ''20''),
                (''sale'', ''true'')]"
    by code_simp
  from buildQuery_meets_spec [OF d] have
    "list_all2 (\<lambda>f p. fst p = fst f \<and> denotes (snd f) (snd p))
       (query_fields ?params) (parse_query (buildQuery ?params))"
    by blast
  then show ?thesis
    unfolding f q using d q p by simp
qed

end
